theory Spec2Isabelle
  imports Main
begin

section \<open>Channel mutations of the membership state machine\<close>

text \<open>
  The development embeds the resolvers of \<^verbatim>\<open>src/iris/mutations/channel.js\<close>:
  \<^verbatim>\<open>deleteChannel\<close>, \<^verbatim>\<open>editChannel\<close>, \<^verbatim>\<open>toggleChannelSubscription\<close>,
  \<^verbatim>\<open>togglePendingUser\<close> and \<^verbatim>\<open>unblockUser\<close>. Each resolver is a function from the
  arguments, the signed-in user of the GraphQL context and the database state to the
  value the resolver resolves to and the database state it leaves.

  The resolvers call the model layer (\<^verbatim>\<open>../models/channel\<close>, \<^verbatim>\<open>../models/community\<close>,
  \<^verbatim>\<open>../models/usersChannels\<close>, \<^verbatim>\<open>../models/usersCommunities\<close>, \<^verbatim>\<open>../models/thread\<close>) and
  the worker queue (\<^verbatim>\<open>../utils/workerQueue\<close>). Those files are not part of the source
  tree at hand; their functions are modelled from the specification, and each such
  definition says so.
\<close>

subsection \<open>Records of the data model\<close>

text \<open>
  Identifiers are strings, as in the source (\<^verbatim>\<open>channelId: string\<close>). A soft-delete
  time stamp is only ever tested for being set, so \<open>deletedAt\<close> is a flag.
\<close>

record channel =
  id_channel :: string
  communityId :: string
  isPrivate :: bool
  deletedAt :: bool

record community =
  id_community :: string
  deletedAt_community :: bool

record thread =
  id_thread :: string
  channelId_thread :: string
  deletedAt_thread :: bool

text \<open>
  Modelled from the spec: the shape of a channel relationship, which the missing
  \<^verbatim>\<open>usersChannels\<close> model stores. The specification gives it a status in
  \<open>{None, Member, Pending, Blocked}\<close>, of which a user holds one at a time, with the
  owner flag and the notification flag beside it. The flags \<^verbatim>\<open>isMember\<close>,
  \<^verbatim>\<open>isPending\<close> and \<^verbatim>\<open>isBlocked\<close> that the resolvers read are the three tests on the
  status.
\<close>

datatype channelStatus = NoneStatus | Member | Pending | Blocked

record channelPermissions =
  status :: channelStatus
  isOwner :: bool
  receiveNotifications :: bool

definition isMember :: "channelPermissions \<Rightarrow> bool" where
  "isMember p = (status p = Member)"

definition isPending :: "channelPermissions \<Rightarrow> bool" where
  "isPending p = (status p = Pending)"

definition isBlocked :: "channelPermissions \<Rightarrow> bool" where
  "isBlocked p = (status p = Blocked)"

text \<open>
  Modelled from the spec: the shape of a community relationship, which the missing
  \<^verbatim>\<open>usersCommunities\<close> model stores: the two flags \<open>{isOwner, isMember}\<close> that
  the permission resolver returns. They are kept apart, so that an owner who is also
  a member and an owner who is not are both states of the model.
\<close>

record communityPermissions =
  isOwner_community :: bool
  isMember_community :: bool

definition noChannelPermissions :: channelPermissions where
  "noChannelPermissions = \<lparr>status = NoneStatus, isOwner = False, receiveNotifications = False\<rparr>"

definition noCommunityPermissions :: communityPermissions where
  "noCommunityPermissions = \<lparr>isOwner_community = False, isMember_community = False\<rparr>"

text \<open>The notices handed to the worker queue by \<^verbatim>\<open>addQueue\<close>, with their payloads.\<close>

datatype event =
    PrivateChannelRequestSent string channel
  | PrivateChannelRequestApproved string string string string

text \<open>
  The database: the three tables of entities, the two tables of relationships (a total
  function, a pair without a stored row having the empty relationship), the default
  channels of each community, and the queue of notices.
\<close>

record state =
  channels_table :: "channel list"
  communities_table :: "community list"
  threads_table :: "thread list"
  usersChannels :: "string \<Rightarrow> string \<Rightarrow> channelPermissions"
  usersCommunities :: "string \<Rightarrow> string \<Rightarrow> communityPermissions"
  defaultChannels :: "string \<Rightarrow> string list"
  queue :: "event list"

text \<open>
  What a resolver resolves to when it does not succeed: a \<^verbatim>\<open>UserError\<close> value with its
  message, which the resolvers return, or the \<^verbatim>\<open>TypeError\<close> that JavaScript throws at a
  property read on \<^verbatim>\<open>undefined\<close>.
\<close>

datatype failure = UserError string | TypeError

subsection \<open>The model layer\<close>

text \<open>
  Modelled from the spec: \<^verbatim>\<open>getChannels(ids)\<close> of the missing \<^verbatim>\<open>models/channel\<close>, the
  channel records with one of the given identifiers.
\<close>

definition getChannels :: "string list \<Rightarrow> state \<Rightarrow> channel list" where
  "getChannels ids s = filter (\<lambda>ch. id_channel ch \<in> set ids) (channels_table s)"

text \<open>
  Modelled from the spec: \<^verbatim>\<open>getCommunities(ids)\<close> of the missing \<^verbatim>\<open>models/community\<close>.
\<close>

definition getCommunities :: "string list \<Rightarrow> state \<Rightarrow> community list" where
  "getCommunities ids s = filter (\<lambda>k. id_community k \<in> set ids) (communities_table s)"

text \<open>
  Modelled from the spec: \<^verbatim>\<open>getUserPermissionsInChannel\<close> of the missing
  \<^verbatim>\<open>models/usersChannels\<close>. The permission resolver reads the stored relationship and
  has no effect; for a channel that is not found or is soft-deleted it returns the
  all-false permission set.
\<close>

definition getUserPermissionsInChannel :: "string \<Rightarrow> string \<Rightarrow> state \<Rightarrow> channelPermissions" where
  "getUserPermissionsInChannel cid uid s =
     (case getChannels [cid] s of
        [] \<Rightarrow> noChannelPermissions
      | ch # _ \<Rightarrow> if deletedAt ch then noChannelPermissions else usersChannels s cid uid)"

text \<open>
  Modelled from the spec: \<^verbatim>\<open>getUserPermissionsInCommunity\<close> of the missing
  \<^verbatim>\<open>models/usersCommunities\<close>, all-false for a community that is not found or is
  soft-deleted.
\<close>

definition getUserPermissionsInCommunity :: "string \<Rightarrow> string \<Rightarrow> state \<Rightarrow> communityPermissions" where
  "getUserPermissionsInCommunity kid uid s =
     (case getCommunities [kid] s of
        [] \<Rightarrow> noCommunityPermissions
      | k # _ \<Rightarrow> if deletedAt_community k then noCommunityPermissions else usersCommunities s kid uid)"

text \<open>
  The writes of the relationship tables change the status of one pair, or one flag of
  a community relationship.
\<close>

definition setStatus :: "string \<Rightarrow> string \<Rightarrow> channelStatus \<Rightarrow> state \<Rightarrow> state" where
  "setStatus cid uid st s =
     s\<lparr>usersChannels := (usersChannels s)(cid := (usersChannels s cid)(uid := (usersChannels s cid uid)\<lparr>status := st\<rparr>))\<rparr>"

definition setCommunityMember :: "string \<Rightarrow> string \<Rightarrow> bool \<Rightarrow> state \<Rightarrow> state" where
  "setCommunityMember kid uid b s =
     s\<lparr>usersCommunities := (usersCommunities s)(kid := (usersCommunities s kid)(uid := (usersCommunities s kid uid)\<lparr>isMember_community := b\<rparr>))\<rparr>"

text \<open>The record a write of a channel relationship resolves to: the channel, when there is one.\<close>

definition channelRecord :: "string \<Rightarrow> state \<Rightarrow> channel option" where
  "channelRecord cid s = (case getChannels [cid] s of [] \<Rightarrow> None | ch # _ \<Rightarrow> Some ch)"

text \<open>
  Modelled from the spec: \<^verbatim>\<open>createMemberInChannel\<close> of the missing
  \<^verbatim>\<open>models/usersChannels\<close>: the status of the pair becomes Member. The resolver reads
  \<^verbatim>\<open>communityId\<close> from what it resolves to, so it resolves to the channel record.
\<close>

definition createMemberInChannel :: "string \<Rightarrow> string \<Rightarrow> state \<Rightarrow> channel option \<times> state" where
  "createMemberInChannel cid uid s = (channelRecord cid s, setStatus cid uid Member s)"

text \<open>
  Modelled from the spec: \<^verbatim>\<open>removeMemberInChannel\<close> of the missing
  \<^verbatim>\<open>models/usersChannels\<close>: the status of the pair becomes None. The specification
  does not say what it resolves to; the channel record is taken, as for the other
  writes of one relationship.
\<close>

definition removeMemberInChannel :: "string \<Rightarrow> string \<Rightarrow> state \<Rightarrow> channel option \<times> state" where
  "removeMemberInChannel cid uid s = (channelRecord cid s, setStatus cid uid NoneStatus s)"

text \<open>
  Modelled from the spec: \<^verbatim>\<open>createOrUpdatePendingUserInChannel\<close> of the missing
  \<^verbatim>\<open>models/usersChannels\<close>: the status of the pair becomes Pending.
\<close>

definition createOrUpdatePendingUserInChannel :: "string \<Rightarrow> string \<Rightarrow> state \<Rightarrow> channel option \<times> state" where
  "createOrUpdatePendingUserInChannel cid uid s = (channelRecord cid s, setStatus cid uid Pending s)"

text \<open>
  Modelled from the spec: \<^verbatim>\<open>blockUserInChannel\<close>, \<^verbatim>\<open>approvePendingUserInChannel\<close> and
  \<^verbatim>\<open>unblockMemberInChannel\<close> of the missing \<^verbatim>\<open>models/usersChannels\<close>: the status of
  the pair becomes Blocked, Member and None. The resolvers use none of their results.
\<close>

definition blockUserInChannel :: "string \<Rightarrow> string \<Rightarrow> state \<Rightarrow> state" where
  "blockUserInChannel cid uid s = setStatus cid uid Blocked s"

definition approvePendingUserInChannel :: "string \<Rightarrow> string \<Rightarrow> state \<Rightarrow> state" where
  "approvePendingUserInChannel cid uid s = setStatus cid uid Member s"

definition unblockMemberInChannel :: "string \<Rightarrow> string \<Rightarrow> state \<Rightarrow> state" where
  "unblockMemberInChannel cid uid s = setStatus cid uid NoneStatus s"

text \<open>
  Modelled from the spec: the bulk writes \<^verbatim>\<open>approvePendingUsersInChannel(channelId)\<close>
  and \<^verbatim>\<open>removeMembersInChannel(channelId)\<close> of the missing \<^verbatim>\<open>models/usersChannels\<close>:
  every user who is Pending in the channel becomes Member; every user of the channel
  gets the status None.
\<close>

definition approvePendingUsersInChannel :: "string \<Rightarrow> state \<Rightarrow> state" where
  "approvePendingUsersInChannel cid s =
     s\<lparr>usersChannels := (usersChannels s)(cid := (\<lambda>uid.
          if status (usersChannels s cid uid) = Pending
          then (usersChannels s cid uid)\<lparr>status := Member\<rparr>
          else usersChannels s cid uid))\<rparr>"

definition removeMembersInChannel :: "string \<Rightarrow> state \<Rightarrow> state" where
  "removeMembersInChannel cid s =
     s\<lparr>usersChannels := (usersChannels s)(cid := (\<lambda>uid. (usersChannels s cid uid)\<lparr>status := NoneStatus\<rparr>))\<rparr>"

text \<open>
  Modelled from the spec: \<^verbatim>\<open>createMemberInCommunity\<close> and \<^verbatim>\<open>removeMemberInCommunity\<close>
  of the missing \<^verbatim>\<open>models/usersCommunities\<close>: the membership of the pair is granted
  and removed.
\<close>

definition createMemberInCommunity :: "string \<Rightarrow> string \<Rightarrow> state \<Rightarrow> state" where
  "createMemberInCommunity kid uid s = setCommunityMember kid uid True s"

definition removeMemberInCommunity :: "string \<Rightarrow> string \<Rightarrow> state \<Rightarrow> state" where
  "removeMemberInCommunity kid uid s = setCommunityMember kid uid False s"

text \<open>
  Modelled from the spec: \<^verbatim>\<open>createMemberInDefaultChannels(communityId, userId)\<close> of
  the missing \<^verbatim>\<open>models/usersChannels\<close>: Member status is created in each channel of
  the community's default channel set.
\<close>

definition createMemberInDefaultChannels :: "string \<Rightarrow> string \<Rightarrow> state \<Rightarrow> state" where
  "createMemberInDefaultChannels kid uid s =
     fold (\<lambda>cid. setStatus cid uid Member) (defaultChannels s kid) s"

text \<open>
  Modelled from the spec: \<^verbatim>\<open>userIsMemberOfAnyChannelInCommunity(communityId, userId)\<close>
  of the missing \<^verbatim>\<open>models/community\<close>: whether the user has Member status in a
  channel of the community.
\<close>

definition userIsMemberOfAnyChannelInCommunity :: "string \<Rightarrow> string \<Rightarrow> state \<Rightarrow> bool" where
  "userIsMemberOfAnyChannelInCommunity kid uid s =
     list_ex (\<lambda>ch. communityId ch = kid \<and> status (usersChannels s (id_channel ch) uid) = Member)
       (channels_table s)"

text \<open>
  Modelled from the spec: \<^verbatim>\<open>deleteChannel(id)\<close> and \<^verbatim>\<open>editChannel(input)\<close> of the
  missing \<^verbatim>\<open>models/channel\<close>: the soft-delete of a channel, and the edit of its
  record (of the edited attributes, the privacy flag is the one kept here), which
  resolves to the edited record.
\<close>

definition deleteChannel_model :: "string \<Rightarrow> state \<Rightarrow> state" where
  "deleteChannel_model cid s =
     s\<lparr>channels_table := map (\<lambda>ch. if id_channel ch = cid then ch\<lparr>deletedAt := True\<rparr> else ch) (channels_table s)\<rparr>"

definition editChannel_model :: "string \<Rightarrow> bool \<Rightarrow> state \<Rightarrow> channel option \<times> state" where
  "editChannel_model cid priv s =
     (let s' = s\<lparr>channels_table := map (\<lambda>ch. if id_channel ch = cid then ch\<lparr>isPrivate := priv\<rparr> else ch) (channels_table s)\<rparr>
      in (channelRecord cid s', s'))"

text \<open>
  Modelled from the spec: \<^verbatim>\<open>getThreadsByChannelToDelete(channelId)\<close> and
  \<^verbatim>\<open>deleteThread(id)\<close> of the missing \<^verbatim>\<open>models/thread\<close>: the threads that belong to
  the channel, and the soft-delete of a thread.
\<close>

definition getThreadsByChannelToDelete :: "string \<Rightarrow> state \<Rightarrow> thread list" where
  "getThreadsByChannelToDelete cid s = filter (\<lambda>t. channelId_thread t = cid) (threads_table s)"

definition deleteThread :: "string \<Rightarrow> state \<Rightarrow> state" where
  "deleteThread tid s =
     s\<lparr>threads_table := map (\<lambda>t. if id_thread t = tid then t\<lparr>deletedAt_thread := True\<rparr> else t) (threads_table s)\<rparr>"

text \<open>
  Modelled from the spec: \<^verbatim>\<open>addQueue(eventName, payload)\<close> of the missing
  \<^verbatim>\<open>utils/workerQueue\<close>: the notice is put on the queue.
\<close>

definition addQueue :: "event \<Rightarrow> state \<Rightarrow> state" where
  "addQueue e s = s\<lparr>queue := queue s @ [e]\<rparr>"

subsection \<open>Values of JavaScript that the resolvers read through\<close>

text \<open>
  \<^verbatim>\<open>unblockUser\<close> calls \<^verbatim>\<open>getUserPermissionsInCommunity\<close> without \<^verbatim>\<open>await\<close>, so the
  value it holds is the promise and not the permissions the promise resolves to. A
  promise object has no property \<^verbatim>\<open>isOwner\<close>: the read gives \<^verbatim>\<open>undefined\<close>, which a
  condition takes for false.
\<close>

datatype 'a promise = Promise 'a

fun isOwner_promise :: "communityPermissions promise \<Rightarrow> bool" where
  "isOwner_promise (Promise p) = False"

text \<open>
  \<^verbatim>\<open>editChannel\<close> joins two reads with \<^verbatim>\<open>Promise.all\<close> and binds the results by
  position, so a name can hold either a permissions object or an array of channel
  records. \<^verbatim>\<open>v[0]\<close> is the first record of an array, and \<^verbatim>\<open>undefined\<close> on an empty
  array and on a permissions object, which has the properties \<^verbatim>\<open>isOwner\<close>,
  \<^verbatim>\<open>isMember\<close>, \<^verbatim>\<open>isPending\<close>, \<^verbatim>\<open>isBlocked\<close> and \<^verbatim>\<open>receiveNotifications\<close> only.
  \<^verbatim>\<open>v.isOwner\<close> is the flag of a permissions object, and \<^verbatim>\<open>undefined\<close> on an array.
\<close>

datatype joined = PermissionsValue channelPermissions | ChannelsValue "channel list"

fun element0 :: "joined \<Rightarrow> channel option" where
  "element0 (ChannelsValue []) = None"
| "element0 (ChannelsValue (ch # _)) = Some ch"
| "element0 (PermissionsValue p) = None"

fun isOwner_joined :: "joined \<Rightarrow> bool" where
  "isOwner_joined (PermissionsValue p) = isOwner p"
| "isOwner_joined (ChannelsValue chs) = False"

subsection \<open>The resolvers\<close>

text \<open>
  A resolver takes its arguments, the \<^verbatim>\<open>user\<close> of the GraphQL context (\<open>None\<close> when
  nobody is signed in) and the state, and gives what it resolves to with the state it
  leaves. \<open>Inl\<close> is a failure; \<open>Inr None\<close> is \<^verbatim>\<open>undefined\<close>. Reads joined by
  \<^verbatim>\<open>Promise.all\<close> see the same state. Writes started together touch different rows,
  or give one row the same status, and are applied in the order in which the source
  starts them.
\<close>

text \<open>
  \<^verbatim>\<open>deleteChannel\<close>, lines 132 to 209. On success it resolves to \<^verbatim>\<open>undefined\<close> when the
  channel has no thread, and else to the array of the thread deletions, given here by
  the identifiers of the threads.
\<close>

definition deleteChannel :: "string \<Rightarrow> string option \<Rightarrow> state \<Rightarrow> (failure + string list option) \<times> state" where
  "deleteChannel channelId user s =
     (case user of
        None \<Rightarrow> (Inl (UserError ''You must be signed in to make changes to this channel.''), s)
      | Some currentUser \<Rightarrow>
          let currentUserChannelPermissions = getUserPermissionsInChannel channelId currentUser s;
              channels = getChannels [channelId] s
          in (case channels of
                [] \<Rightarrow> (Inl (UserError ''Channel doesn't exist''), s)
              | channelToEvaluate # _ \<Rightarrow>
                  if deletedAt channelToEvaluate then (Inl (UserError ''Channel doesn't exist''), s)
                  else
                    let currentUserCommunityPermissions =
                          getUserPermissionsInCommunity (communityId channelToEvaluate) currentUser s
                    in if \<not> isOwner currentUserChannelPermissions \<and>
                          \<not> isOwner_community currentUserCommunityPermissions
                       then (Inl (UserError ''You don't have permission to make changes to this channel''), s)
                       else
                         let s1 = deleteChannel_model channelId s;
                             allThreadsInChannel = getThreadsByChannelToDelete channelId s1;
                             s2 = removeMembersInChannel channelId s1
                         in if length allThreadsInChannel = 0 then (Inr None, s2)
                            else (Inr (Some (map id_thread allThreadsInChannel)),
                                  fold (\<lambda>thread. deleteThread (id_thread thread)) allThreadsInChannel s2)))"

text \<open>
  \<^verbatim>\<open>editChannel\<close>, lines 210 to 272. The array given to \<^verbatim>\<open>Promise.all\<close> holds the
  permissions first and the channel records second, and the pattern on the left binds
  \<^verbatim>\<open>channels\<close> first and \<^verbatim>\<open>currentUserChannelPermissions\<close> second.
\<close>

definition editChannel :: "string \<Rightarrow> bool \<Rightarrow> string option \<Rightarrow> state \<Rightarrow> (failure + channel option) \<times> state" where
  "editChannel channelId isPrivate_input user s =
     (case user of
        None \<Rightarrow> (Inl (UserError ''You must be signed in to make changes to this channel.''), s)
      | Some currentUser \<Rightarrow>
          let getCurrentUserChannelPermissions =
                PermissionsValue (getUserPermissionsInChannel channelId currentUser s);
              getChannelRecords = ChannelsValue (getChannels [channelId] s);
              (channels, currentUserChannelPermissions) =
                (getCurrentUserChannelPermissions, getChannelRecords)
          in (case element0 channels of
                None \<Rightarrow> (Inl (UserError ''This channel doesn't exist''), s)
              | Some channelToEvaluate \<Rightarrow>
                  if deletedAt channelToEvaluate then (Inl (UserError ''This channel doesn't exist''), s)
                  else
                    let currentUserCommunityPermissions =
                          getUserPermissionsInCommunity (communityId channelToEvaluate) currentUser s
                    in if isOwner_community currentUserCommunityPermissions \<or>
                          isOwner_joined currentUserChannelPermissions
                       then
                         let s1 = (if isPrivate channelToEvaluate \<and> \<not> isPrivate_input
                                   then approvePendingUsersInChannel channelId s else s);
                             (edited, s2) = editChannel_model channelId isPrivate_input s1
                         in (Inr edited, s2)
                       else (Inl (UserError ''You don't have permission to make changes to this channel.''), s)))"

text \<open>
  \<^verbatim>\<open>toggleChannelSubscription\<close>, lines 273 to 421. On the join of a user who is not a
  member of the parent community, \<^verbatim>\<open>joinedChannel.communityId\<close> is read from what
  \<^verbatim>\<open>createMemberInChannel\<close> resolved to, and throws when that is \<^verbatim>\<open>undefined\<close>.
\<close>

definition toggleChannelSubscription :: "string \<Rightarrow> string option \<Rightarrow> state \<Rightarrow> (failure + channel option) \<times> state" where
  "toggleChannelSubscription channelId user s =
     (case user of
        None \<Rightarrow> (Inl (UserError ''You must be signed in to follow this channel.''), s)
      | Some currentUser \<Rightarrow>
          let channels = getChannels [channelId] s;
              currentUserChannelPermissions = getUserPermissionsInChannel channelId currentUser s
          in (case channels of
                [] \<Rightarrow> (Inl (UserError ''This channel doesn't exist''), s)
              | channelToEvaluate # _ \<Rightarrow>
                  if deletedAt channelToEvaluate then (Inl (UserError ''This channel doesn't exist''), s)
                  else if isBlocked currentUserChannelPermissions
                  then (Inl (UserError ''You don't have permission to do that.''), s)
                  else if isOwner currentUserChannelPermissions
                  then (Inl (UserError ''Owners of a community can't join or leave their own channel.''), s)
                  else if isMember currentUserChannelPermissions then
                    let (removed, s1) = removeMemberInChannel channelId currentUser s;
                        isMemberOfAnotherChannel =
                          userIsMemberOfAnyChannelInCommunity (communityId channelToEvaluate) currentUser s1
                    in if isMemberOfAnotherChannel then (Inr (Some channelToEvaluate), s1)
                       else (Inr (Some channelToEvaluate),
                             removeMemberInCommunity (communityId channelToEvaluate) currentUser s1)
                  else if isPending currentUserChannelPermissions then
                    (let (removed, s1) = removeMemberInChannel channelId currentUser s in (Inr removed, s1))
                  else if isPrivate channelToEvaluate then
                    let (channel, s1) = createOrUpdatePendingUserInChannel channelId currentUser s;
                        s2 = addQueue (PrivateChannelRequestSent currentUser channelToEvaluate) s1
                    in (Inr channel, s2)
                  else
                    let (joinedChannel, s1) = createMemberInChannel channelId currentUser s;
                        currentUserCommunityPermissions =
                          getUserPermissionsInCommunity (communityId channelToEvaluate) currentUser s1
                    in if isMember_community currentUserCommunityPermissions then (Inr joinedChannel, s1)
                       else (case joinedChannel of
                               None \<Rightarrow> (Inl TypeError, s1)
                             | Some joined \<Rightarrow>
                                 let s2 = createMemberInCommunity (communityId joined) currentUser s1;
                                     s3 = createMemberInDefaultChannels (communityId joined) currentUser s2
                                 in (Inr joinedChannel, s3))))"

text \<open>
  \<^verbatim>\<open>togglePendingUser\<close>, lines 458 to 577, with the fields of its input as arguments.
  The action is one of \<^verbatim>\<open>'block'\<close> and \<^verbatim>\<open>'approve'\<close>.
\<close>

datatype pendingAction = Block | Approve

definition togglePendingUser :: "string \<Rightarrow> string \<Rightarrow> pendingAction \<Rightarrow> string option \<Rightarrow> state \<Rightarrow> (failure + channel option) \<times> state" where
  "togglePendingUser channelId userId action user s =
     (case user of
        None \<Rightarrow> (Inl (UserError ''You must be signed in to make changes to this channel.''), s)
      | Some currentUser \<Rightarrow>
          let channelPermissions = getUserPermissionsInChannel channelId currentUser s;
              evaluatedUserPermissions = getUserPermissionsInChannel channelId userId s;
              channels = getChannels [channelId] s
          in (case channels of
                [] \<Rightarrow> (Inl (UserError ''This channel doesn't exist''), s)
              | channelToEvaluate # _ \<Rightarrow>
                  if deletedAt channelToEvaluate then (Inl (UserError ''This channel doesn't exist''), s)
                  else
                    let currentUserCommunityPermissions =
                          getUserPermissionsInCommunity (communityId channelToEvaluate) currentUser s
                    in if \<not> isPending evaluatedUserPermissions
                       then (Inl (UserError ''This user is not currently pending access to this channel.''), s)
                       else if \<not> isOwner channelPermissions \<or>
                               \<not> isOwner_community currentUserCommunityPermissions
                       then (Inl (UserError ''You don't have permission to make changes to this channel.''), s)
                       else (case action of
                               Block \<Rightarrow>
                                 (Inr (Some channelToEvaluate), blockUserInChannel channelId userId s)
                             | Approve \<Rightarrow>
                                 let s1 = approvePendingUserInChannel channelId userId s;
                                     approved = PrivateChannelRequestApproved userId
                                       (id_channel channelToEvaluate) (communityId channelToEvaluate) currentUser
                                 in if isMember_community currentUserCommunityPermissions
                                    then (Inr (Some channelToEvaluate), addQueue approved s1)
                                    else
                                      let s2 = createMemberInCommunity (communityId channelToEvaluate) userId s1;
                                          s3 = createMemberInDefaultChannels (communityId channelToEvaluate) userId s2
                                      in (Inr (Some channelToEvaluate), addQueue approved s3))))"

text \<open>
  \<^verbatim>\<open>unblockUser\<close>, lines 578 to 649, with the fields of its input as arguments. The
  community permissions of the current user are not awaited.
\<close>

definition unblockUser :: "string \<Rightarrow> string \<Rightarrow> string option \<Rightarrow> state \<Rightarrow> (failure + channel option) \<times> state" where
  "unblockUser channelId userId user s =
     (case user of
        None \<Rightarrow> (Inl (UserError ''You must be signed in to make changes to this channel.''), s)
      | Some currentUser \<Rightarrow>
          let currentUserChannelPermissions = getUserPermissionsInChannel channelId currentUser s;
              evaluatedUserChannelPermissions = getUserPermissionsInChannel channelId userId s;
              channels = getChannels [channelId] s
          in (case channels of
                [] \<Rightarrow> (Inl (UserError ''This channel doesn't exist''), s)
              | channelToEvaluate # _ \<Rightarrow>
                  if deletedAt channelToEvaluate then (Inl (UserError ''This channel doesn't exist''), s)
                  else
                    let currentUserCommunityPermissions =
                          Promise (getUserPermissionsInCommunity (communityId channelToEvaluate) currentUser s)
                    in if \<not> isBlocked evaluatedUserChannelPermissions
                       then (Inl (UserError ''This user is not currently blocked in this channel.''), s)
                       else if isOwner currentUserChannelPermissions \<or>
                               isOwner_promise currentUserCommunityPermissions
                       then (Inr (Some channelToEvaluate), unblockMemberInChannel channelId userId s)
                       else (Inl (UserError ''You don't have permission to make changes to this channel.''), s)))"

subsection \<open>A predicate of the specification\<close>

text \<open>
  The last-channel rule speaks of the user having Member status in another channel of
  the community: a channel of the community, other than the one that is left, in which
  the status of the user is Member.
\<close>

definition memberOfAnotherChannel :: "string \<Rightarrow> string \<Rightarrow> string \<Rightarrow> state \<Rightarrow> bool" where
  "memberOfAnotherChannel kid cid uid s =
     list_ex (\<lambda>ch. communityId ch = kid \<and> id_channel ch \<noteq> cid \<and>
                   status (usersChannels s (id_channel ch) uid) = Member)
       (channels_table s)"

subsection \<open>A community to run the resolvers on\<close>

text \<open>
  Community \<open>K\<close> has the public channels \<open>general\<close> (its default channel) and
  \<open>lounge\<close> and the private channel \<open>private\<close>. Olivia owns the community and its
  channels; Kim owns the community only, Chen the private channel only. Victor waits
  for approval in the private channel and Bao is blocked there. Mia is a member of
  \<open>lounge\<close> alone, Noor of \<open>lounge\<close> and \<open>general\<close>. Zed has no relationship.
\<close>

definition demoChannels :: "string \<Rightarrow> string \<Rightarrow> channelPermissions" where
  "demoChannels cid uid =
     (if cid = ''private'' then
        (if uid = ''olivia'' \<or> uid = ''chen'' then \<lparr>status = Member, isOwner = True, receiveNotifications = True\<rparr>
         else if uid = ''victor'' then \<lparr>status = Pending, isOwner = False, receiveNotifications = False\<rparr>
         else if uid = ''bao'' then \<lparr>status = Blocked, isOwner = False, receiveNotifications = False\<rparr>
         else noChannelPermissions)
      else if cid = ''lounge'' then
        (if uid = ''olivia'' then \<lparr>status = Member, isOwner = True, receiveNotifications = True\<rparr>
         else if uid = ''mia'' \<or> uid = ''noor'' then \<lparr>status = Member, isOwner = False, receiveNotifications = True\<rparr>
         else noChannelPermissions)
      else if cid = ''general'' then
        (if uid = ''olivia'' then \<lparr>status = Member, isOwner = True, receiveNotifications = True\<rparr>
         else if uid = ''noor'' then \<lparr>status = Member, isOwner = False, receiveNotifications = True\<rparr>
         else noChannelPermissions)
      else noChannelPermissions)"

definition demoCommunities :: "string \<Rightarrow> string \<Rightarrow> communityPermissions" where
  "demoCommunities kid uid =
     (if kid = ''K'' then
        (if uid = ''olivia'' \<or> uid = ''kim'' then \<lparr>isOwner_community = True, isMember_community = True\<rparr>
         else if uid = ''mia'' \<or> uid = ''noor'' \<or> uid = ''chen''
         then \<lparr>isOwner_community = False, isMember_community = True\<rparr>
         else noCommunityPermissions)
      else noCommunityPermissions)"

definition demo :: state where
  "demo =
     \<lparr>channels_table =
        [\<lparr>id_channel = ''general'', communityId = ''K'', isPrivate = False, deletedAt = False\<rparr>,
         \<lparr>id_channel = ''lounge'', communityId = ''K'', isPrivate = False, deletedAt = False\<rparr>,
         \<lparr>id_channel = ''private'', communityId = ''K'', isPrivate = True, deletedAt = False\<rparr>],
      communities_table = [\<lparr>id_community = ''K'', deletedAt_community = False\<rparr>],
      threads_table =
        [\<lparr>id_thread = ''t1'', channelId_thread = ''private'', deletedAt_thread = False\<rparr>,
         \<lparr>id_thread = ''t2'', channelId_thread = ''general'', deletedAt_thread = False\<rparr>,
         \<lparr>id_thread = ''t3'', channelId_thread = ''private'', deletedAt_thread = False\<rparr>],
      usersChannels = demoChannels,
      usersCommunities = demoCommunities,
      defaultChannels = (\<lambda>kid. if kid = ''K'' then [''general''] else []),
      queue = []\<rparr>"

section \<open>Properties of the resolvers\<close>

subsection \<open>Reads and writes of the model layer\<close>

text \<open>On a channel that is found and not deleted, the permissions are the stored relationship.\<close>

lemma live_channel_permissions:
  "getChannels [cid] s = ch # rest \<Longrightarrow> \<not> deletedAt ch \<Longrightarrow>
   getUserPermissionsInChannel cid uid s = usersChannels s cid uid"
  by (simp add: getUserPermissionsInChannel_def)

lemma channelRecord_live: "getChannels [cid] s = ch # rest \<Longrightarrow> channelRecord cid s = Some ch"
  by (simp add: channelRecord_def)

lemma no_membership_read:
  "\<not> isMember_community (usersCommunities s kid uid) \<Longrightarrow>
   \<not> isMember_community (getUserPermissionsInCommunity kid uid s)"
  by (simp add: getUserPermissionsInCommunity_def noCommunityPermissions_def
      split: list.splits)

text \<open>A write of one status changes one row of one table.\<close>

lemma setStatus_usersChannels:
  "usersChannels (setStatus cid uid st s) c u =
     (if c = cid \<and> u = uid then (usersChannels s cid uid)\<lparr>status := st\<rparr> else usersChannels s c u)"
  by (simp add: setStatus_def)

lemma setStatus_other_tables:
  "channels_table (setStatus cid uid st s) = channels_table s"
  "communities_table (setStatus cid uid st s) = communities_table s"
  "threads_table (setStatus cid uid st s) = threads_table s"
  "usersCommunities (setStatus cid uid st s) = usersCommunities s"
  "defaultChannels (setStatus cid uid st s) = defaultChannels s"
  "queue (setStatus cid uid st s) = queue s"
  by (simp_all add: setStatus_def)

lemma fold_setStatus_usersChannels:
  "usersChannels (fold (\<lambda>cid. setStatus cid uid st) cs s) c u =
     (if c \<in> set cs \<and> u = uid then (usersChannels s c uid)\<lparr>status := st\<rparr> else usersChannels s c u)"
  by (induction cs arbitrary: s) (auto simp: setStatus_usersChannels)

lemma fold_setStatus_other_tables:
  "channels_table (fold (\<lambda>cid. setStatus cid uid st) cs s) = channels_table s"
  "communities_table (fold (\<lambda>cid. setStatus cid uid st) cs s) = communities_table s"
  "threads_table (fold (\<lambda>cid. setStatus cid uid st) cs s) = threads_table s"
  "usersCommunities (fold (\<lambda>cid. setStatus cid uid st) cs s) = usersCommunities s"
  "defaultChannels (fold (\<lambda>cid. setStatus cid uid st) cs s) = defaultChannels s"
  "queue (fold (\<lambda>cid. setStatus cid uid st) cs s) = queue s"
  by (induction cs arbitrary: s; simp add: setStatus_other_tables)+

text \<open>
  After a user has left a channel, being a member of any channel of the community is
  being a member of another one.
\<close>

lemma member_elsewhere_after_leave:
  "userIsMemberOfAnyChannelInCommunity kid uid (setStatus cid uid NoneStatus s) =
     memberOfAnotherChannel kid cid uid (setStatus cid uid NoneStatus s)"
  by (auto simp: userIsMemberOfAnyChannelInCommunity_def memberOfAnotherChannel_def
      list_ex_iff setStatus_usersChannels setStatus_other_tables)

text \<open>The deletion of a list of threads marks the threads with their identifiers.\<close>

lemma deleteThread_threads:
  "threads_table (deleteThread tid s) =
     map (\<lambda>t. if id_thread t = tid then t\<lparr>deletedAt_thread := True\<rparr> else t) (threads_table s)"
  by (simp add: deleteThread_def)

lemma fold_deleteThread_threads:
  "threads_table (fold (\<lambda>thread. deleteThread (id_thread thread)) ts s) =
     map (\<lambda>t. if id_thread t \<in> id_thread ` set ts then t\<lparr>deletedAt_thread := True\<rparr> else t)
       (threads_table s)"
proof (induction ts arbitrary: s)
  case Nil
  show ?case by (simp add: map_idI)
next
  case (Cons x xs)
  have "threads_table (fold (\<lambda>thread. deleteThread (id_thread thread)) (x # xs) s) =
      map (\<lambda>t. if id_thread t \<in> id_thread ` set xs then t\<lparr>deletedAt_thread := True\<rparr> else t)
        (threads_table (deleteThread (id_thread x) s))"
    by (simp add: Cons.IH)
  also have "\<dots> =
      map (\<lambda>t. if id_thread t \<in> id_thread ` set (x # xs) then t\<lparr>deletedAt_thread := True\<rparr> else t)
        (threads_table s)"
    unfolding deleteThread_threads map_map by (rule map_cong) auto
  finally show ?case .
qed

lemma fold_deleteThread_other_tables:
  "channels_table (fold (\<lambda>thread. deleteThread (id_thread thread)) ts s) = channels_table s"
  "usersChannels (fold (\<lambda>thread. deleteThread (id_thread thread)) ts s) = usersChannels s"
  "usersCommunities (fold (\<lambda>thread. deleteThread (id_thread thread)) ts s) = usersCommunities s"
  by (induction ts arbitrary: s; simp add: deleteThread_def)+

subsection \<open>The tables of the example\<close>

lemma demo_tables:
  "usersChannels demo = demoChannels"
  "usersCommunities demo = demoCommunities"
  "defaultChannels demo ''K'' = [''general'']"
  "queue demo = []"
  by (simp_all add: demo_def)

lemma demo_channel_ids:
  "channels_table demo =
     [\<lparr>id_channel = ''general'', communityId = ''K'', isPrivate = False, deletedAt = False\<rparr>,
      \<lparr>id_channel = ''lounge'', communityId = ''K'', isPrivate = False, deletedAt = False\<rparr>,
      \<lparr>id_channel = ''private'', communityId = ''K'', isPrivate = True, deletedAt = False\<rparr>]"
  by (simp add: demo_def)

lemma demo_general:
  "getChannels [''general''] demo =
     [\<lparr>id_channel = ''general'', communityId = ''K'', isPrivate = False, deletedAt = False\<rparr>]"
  by (simp add: getChannels_def demo_def)

lemma demo_lounge:
  "getChannels [''lounge''] demo =
     [\<lparr>id_channel = ''lounge'', communityId = ''K'', isPrivate = False, deletedAt = False\<rparr>]"
  by (simp add: getChannels_def demo_def)

lemma demo_private:
  "getChannels [''private''] demo =
     [\<lparr>id_channel = ''private'', communityId = ''K'', isPrivate = True, deletedAt = False\<rparr>]"
  by (simp add: getChannels_def demo_def)

lemma demo_community:
  "getCommunities [''K''] demo = [\<lparr>id_community = ''K'', deletedAt_community = False\<rparr>]"
  by (simp add: getCommunities_def demo_def)

lemma demo_threads:
  "getThreadsByChannelToDelete ''private'' demo =
     [\<lparr>id_thread = ''t1'', channelId_thread = ''private'', deletedAt_thread = False\<rparr>,
      \<lparr>id_thread = ''t3'', channelId_thread = ''private'', deletedAt_thread = False\<rparr>]"
  "getThreadsByChannelToDelete ''lounge'' demo = []"
  by (simp_all add: getThreadsByChannelToDelete_def demo_def)

text \<open>Olivia approves Victor; Mia and Noor leave the lounge.\<close>

lemma demo_first_approval:
  "togglePendingUser ''private'' ''victor'' Approve (Some ''olivia'') demo =
     (Inr (Some \<lparr>id_channel = ''private'', communityId = ''K'', isPrivate = True, deletedAt = False\<rparr>),
      addQueue (PrivateChannelRequestApproved ''victor'' ''private'' ''K'' ''olivia'')
        (approvePendingUserInChannel ''private'' ''victor'' demo))"
  by (simp add: togglePendingUser_def Let_def demo_private demo_community
      getUserPermissionsInChannel_def getUserPermissionsInCommunity_def isPending_def
      demo_tables demoChannels_def demoCommunities_def)

lemma demo_first_approval_tables:
  "getChannels [''private''] (snd (togglePendingUser ''private'' ''victor'' Approve (Some ''olivia'') demo)) =
     [\<lparr>id_channel = ''private'', communityId = ''K'', isPrivate = True, deletedAt = False\<rparr>]"
  "status (usersChannels (snd (togglePendingUser ''private'' ''victor'' Approve (Some ''olivia'') demo))
     ''private'' ''victor'') = Member"
  by (simp_all add: demo_first_approval addQueue_def approvePendingUserInChannel_def setStatus_def
      getChannels_def demo_channel_ids)

lemma demo_mia_leaves:
  "snd (toggleChannelSubscription ''lounge'' (Some ''mia'') demo) =
     removeMemberInCommunity ''K'' ''mia'' (setStatus ''lounge'' ''mia'' NoneStatus demo)"
  by (simp add: toggleChannelSubscription_def Let_def demo_lounge getUserPermissionsInChannel_def
      isBlocked_def isMember_def removeMemberInChannel_def userIsMemberOfAnyChannelInCommunity_def
      setStatus_usersChannels setStatus_other_tables demo_channel_ids demo_tables demoChannels_def
      noChannelPermissions_def)

lemma demo_noor_leaves:
  "snd (toggleChannelSubscription ''lounge'' (Some ''noor'') demo) =
     setStatus ''lounge'' ''noor'' NoneStatus demo"
  by (simp add: toggleChannelSubscription_def Let_def demo_lounge getUserPermissionsInChannel_def
      isBlocked_def isMember_def removeMemberInChannel_def userIsMemberOfAnyChannelInCommunity_def
      setStatus_usersChannels setStatus_other_tables demo_channel_ids demo_tables demoChannels_def
      noChannelPermissions_def)

subsection \<open>deleteChannel\<close>

text \<open>
  Claim C9. Let the channel exist and not be deleted, and let the current user own
  the channel or its parent community. Then \<open>deleteChannel\<close> succeeds; the records of
  the channel are the records it had, now soft-deleted; the threads of the channel are
  the threads it had, each of them soft-deleted; and every user has the status None in
  the channel. Nothing here depends on the number of threads: with no thread the
  resolver resolves to \<^verbatim>\<open>undefined\<close> and the memberships are removed all the same.
\<close>

theorem delete_channel_cascade:
  assumes "getChannels [channelId] s = channelToEvaluate # rest"
      and "\<not> deletedAt channelToEvaluate"
      and "isOwner (getUserPermissionsInChannel channelId currentUser s) \<or>
           isOwner_community (getUserPermissionsInCommunity (communityId channelToEvaluate) currentUser s)"
      and "deleteChannel channelId (Some currentUser) s = (r, s')"
  shows "r = Inr (if getThreadsByChannelToDelete channelId s = [] then None
                  else Some (map id_thread (getThreadsByChannelToDelete channelId s))) \<and>
         getChannels [channelId] s' = map (\<lambda>ch. ch\<lparr>deletedAt := True\<rparr>) (getChannels [channelId] s) \<and>
         (\<forall>ch \<in> set (getChannels [channelId] s'). deletedAt ch) \<and>
         map id_thread (getThreadsByChannelToDelete channelId s') =
           map id_thread (getThreadsByChannelToDelete channelId s) \<and>
         (\<forall>thread \<in> set (getThreadsByChannelToDelete channelId s'). deletedAt_thread thread) \<and>
         (\<forall>u. status (usersChannels s' channelId u) = NoneStatus)"
proof -
  let ?s2 = "removeMembersInChannel channelId (deleteChannel_model channelId s)"
  let ?ts = "getThreadsByChannelToDelete channelId s"
  have ts: "getThreadsByChannelToDelete channelId (deleteChannel_model channelId s) = ?ts"
    by (simp add: getThreadsByChannelToDelete_def deleteChannel_model_def)
  have run: "deleteChannel channelId (Some currentUser) s =
      (if ?ts = [] then (Inr None, ?s2)
       else (Inr (Some (map id_thread ?ts)),
             fold (\<lambda>thread. deleteThread (id_thread thread)) ?ts ?s2))"
    using assms(1-3) by (auto simp: deleteChannel_def Let_def ts)
  have chans: "channels_table s' = channels_table ?s2"
    and rels: "usersChannels s' = usersChannels ?s2"
    and thrs: "threads_table s' =
      map (\<lambda>t. if id_thread t \<in> id_thread ` set ?ts then t\<lparr>deletedAt_thread := True\<rparr> else t)
        (threads_table s)"
    and res: "r = Inr (if ?ts = [] then None else Some (map id_thread ?ts))"
    using run assms(4)
    by (auto simp: fold_deleteThread_other_tables fold_deleteThread_threads
        removeMembersInChannel_def deleteChannel_model_def map_idI split: if_splits)
  have c1: "getChannels [channelId] s' = map (\<lambda>ch. ch\<lparr>deletedAt := True\<rparr>) (getChannels [channelId] s)"
    unfolding getChannels_def chans
    by (simp add: removeMembersInChannel_def deleteChannel_model_def filter_map o_def)
  have c2: "\<forall>ch \<in> set (getChannels [channelId] s'). deletedAt ch"
    unfolding c1 by simp
  let ?mark = "\<lambda>t. if id_thread t \<in> id_thread ` set ?ts then t\<lparr>deletedAt_thread := True\<rparr> else t"
  have t1: "getThreadsByChannelToDelete channelId s' = map ?mark ?ts"
  proof -
    have "filter ((\<lambda>t. channelId_thread t = channelId) \<circ> ?mark) (threads_table s) =
        filter (\<lambda>t. channelId_thread t = channelId) (threads_table s)"
      by (rule filter_cong) auto
    then show ?thesis
      by (simp only: getThreadsByChannelToDelete_def thrs filter_map)
  qed
  have t2: "map id_thread (getThreadsByChannelToDelete channelId s') = map id_thread ?ts"
    unfolding t1 map_map by (rule map_cong) auto
  have t3: "\<forall>thread \<in> set (getThreadsByChannelToDelete channelId s'). deletedAt_thread thread"
    unfolding t1 by auto
  have m: "\<forall>u. status (usersChannels s' channelId u) = NoneStatus"
    unfolding rels by (simp add: removeMembersInChannel_def)
  from res c1 c2 t2 t3 m show ?thesis by blast
qed

text \<open>
  Olivia deletes the private channel with its two threads; Kim, who owns the community,
  deletes the lounge, which has none.
\<close>

theorem delete_channel_cascade_witness:
  "map id_thread (getThreadsByChannelToDelete ''private''
      (snd (deleteChannel ''private'' (Some ''olivia'') demo))) = [''t1'', ''t3''] \<and>
   list_all deletedAt_thread (getThreadsByChannelToDelete ''private''
      (snd (deleteChannel ''private'' (Some ''olivia'') demo))) \<and>
   getChannels [''private''] (snd (deleteChannel ''private'' (Some ''olivia'') demo)) =
     [\<lparr>id_channel = ''private'', communityId = ''K'', isPrivate = True, deletedAt = True\<rparr>] \<and>
   status (usersChannels (snd (deleteChannel ''private'' (Some ''olivia'') demo))
     ''private'' ''chen'') = NoneStatus \<and>
   fst (deleteChannel ''lounge'' (Some ''kim'') demo) = Inr None \<and>
   status (usersChannels demo ''lounge'' ''mia'') = Member \<and>
   status (usersChannels (snd (deleteChannel ''lounge'' (Some ''kim'') demo))
     ''lounge'' ''mia'') = NoneStatus"
proof -
  let ?p = "\<lparr>id_channel = ''private'', communityId = ''K'', isPrivate = True, deletedAt = False\<rparr>"
  let ?l = "\<lparr>id_channel = ''lounge'', communityId = ''K'', isPrivate = False, deletedAt = False\<rparr>"
  let ?run1 = "deleteChannel ''private'' (Some ''olivia'') demo"
  let ?run2 = "deleteChannel ''lounge'' (Some ''kim'') demo"
  have c1: "getChannels [''private''] demo = ?p # []" by (rule demo_private)
  have c2: "getChannels [''lounge''] demo = ?l # []" by (rule demo_lounge)
  have d1: "\<not> deletedAt ?p" and d2: "\<not> deletedAt ?l" by simp_all
  have a1: "isOwner (getUserPermissionsInChannel ''private'' ''olivia'' demo) \<or>
      isOwner_community (getUserPermissionsInCommunity (communityId ?p) ''olivia'' demo)"
    by (simp add: getUserPermissionsInChannel_def demo_private demo_tables demoChannels_def)
  have a2: "isOwner (getUserPermissionsInChannel ''lounge'' ''kim'' demo) \<or>
      isOwner_community (getUserPermissionsInCommunity (communityId ?l) ''kim'' demo)"
    by (simp add: getUserPermissionsInCommunity_def demo_community demo_tables demoCommunities_def)
  have e1: "?run1 = (fst ?run1, snd ?run1)" and e2: "?run2 = (fst ?run2, snd ?run2)" by simp_all
  have m: "status (usersChannels demo ''lounge'' ''mia'') = Member"
    by (simp add: demo_tables demoChannels_def)
  note del1 = delete_channel_cascade [OF c1 d1 a1 e1]
  note del2 = delete_channel_cascade [OF c2 d2 a2 e2]
  have p1: "map id_thread (getThreadsByChannelToDelete ''private'' (snd ?run1)) = [''t1'', ''t3'']"
    using del1 [THEN conjunct2, THEN conjunct2, THEN conjunct2, THEN conjunct1]
    by (simp add: demo_threads)
  have p2: "list_all deletedAt_thread (getThreadsByChannelToDelete ''private'' (snd ?run1))"
    using del1 [THEN conjunct2, THEN conjunct2, THEN conjunct2, THEN conjunct2, THEN conjunct1]
    by (simp only: list_all_iff)
  have p3: "getChannels [''private''] (snd ?run1) =
      [\<lparr>id_channel = ''private'', communityId = ''K'', isPrivate = True, deletedAt = True\<rparr>]"
    using del1 [THEN conjunct2, THEN conjunct1] by (simp add: demo_private)
  have p4: "status (usersChannels (snd ?run1) ''private'' ''chen'') = NoneStatus"
    using del1 [THEN conjunct2, THEN conjunct2, THEN conjunct2, THEN conjunct2, THEN conjunct2]
    by (rule spec)
  have l1: "fst ?run2 = Inr None"
    using del2 [THEN conjunct1] by (simp add: demo_threads)
  have l2: "status (usersChannels (snd ?run2) ''lounge'' ''mia'') = NoneStatus"
    using del2 [THEN conjunct2, THEN conjunct2, THEN conjunct2, THEN conjunct2, THEN conjunct2]
    by (rule spec)
  from p1 p2 p3 p4 l1 m l2 show ?thesis by (intro conjI)
qed

subsection \<open>editChannel\<close>

text \<open>
  Claim C8. The claim is that an edit from private to public makes every pending user
  a member. The resolver does not get that far: \<^verbatim>\<open>channels\<close> is bound to the
  permissions object, whose element \<open>0\<close> is \<^verbatim>\<open>undefined\<close>, so for every signed-in
  user, every channel and every input \<open>editChannel\<close> resolves to the error of a
  channel that does not exist, and the state is as it was.
\<close>

theorem edit_never_finds_channel:
  "editChannel channelId isPrivate_input (Some currentUser) s =
     (Inl (UserError ''This channel doesn't exist''), s)"
  by (simp add: editChannel_def Let_def)

text \<open>
  Olivia, who owns the private channel, makes it public: the error is returned and
  Victor is pending as before.
\<close>

theorem edit_never_finds_channel_witness:
  "isOwner (usersChannels demo ''private'' ''olivia'') \<and>
   getChannels [''private''] demo =
     [\<lparr>id_channel = ''private'', communityId = ''K'', isPrivate = True, deletedAt = False\<rparr>] \<and>
   status (usersChannels demo ''private'' ''victor'') = Pending \<and>
   editChannel ''private'' False (Some ''olivia'') demo =
     (Inl (UserError ''This channel doesn't exist''), demo)"
  using edit_never_finds_channel [of "''private''" False "''olivia''" demo]
  by (simp add: demo_private demo_tables demoChannels_def)

subsection \<open>toggleChannelSubscription\<close>

text \<open>
  Claim C6. When the channel permissions of the current user show \<open>isBlocked\<close>,
  \<open>toggleChannelSubscription\<close> resolves to the error of a user without permission
  and leaves the state as it was: no record of any table changes and nothing is
  queued. The permissions of a channel that is missing or deleted are all false, so the
  hypothesis holds on channels that exist only.
\<close>

theorem blocked_user_cannot_toggle:
  assumes "isBlocked (getUserPermissionsInChannel channelId currentUser s)"
  shows "toggleChannelSubscription channelId (Some currentUser) s =
           (Inl (UserError ''You don't have permission to do that.''), s)"
proof (cases "getChannels [channelId] s")
  case Nil
  with assms show ?thesis
    by (simp add: getUserPermissionsInChannel_def isBlocked_def noChannelPermissions_def)
next
  case (Cons ch rest)
  with assms have "\<not> deletedAt ch"
    by (auto simp: getUserPermissionsInChannel_def isBlocked_def noChannelPermissions_def
        split: if_splits)
  with Cons assms show ?thesis
    by (simp add: toggleChannelSubscription_def Let_def)
qed

theorem blocked_user_cannot_toggle_witness:
  "isBlocked (getUserPermissionsInChannel ''private'' ''bao'' demo) \<and>
   toggleChannelSubscription ''private'' (Some ''bao'') demo =
     (Inl (UserError ''You don't have permission to do that.''), demo)"
proof -
  have b: "isBlocked (getUserPermissionsInChannel ''private'' ''bao'' demo)"
    by (simp add: getUserPermissionsInChannel_def demo_private isBlocked_def)
       (simp add: demo_def demoChannels_def)
  from b blocked_user_cannot_toggle [OF b] show ?thesis by simp
qed

text \<open>
  Claim C2. Let the channel permissions of the user show \<open>isMember\<close> and not
  \<open>isOwner\<close> (so the channel exists and is not deleted). Then
  \<open>toggleChannelSubscription\<close> succeeds and the status of the user in the channel is
  None. The community relationships are those of before when, in the state the resolver
  leaves, the user is a member of another channel of the parent community; otherwise
  they are those of before with the membership of the user in the parent community
  removed. So the user is a member of the community afterwards exactly when the user
  was one before and is still a member of another channel. The test is made on the
  state after the removal from the channel.
\<close>

theorem leave_removes_last_membership:
  assumes "getChannels [channelId] s = channelToEvaluate # rest"
      and "isMember (getUserPermissionsInChannel channelId u s)"
      and "\<not> isOwner (getUserPermissionsInChannel channelId u s)"
      and "toggleChannelSubscription channelId (Some u) s = (r, s')"
  shows "r = Inr (Some channelToEvaluate) \<and>
         status (usersChannels s' channelId u) = NoneStatus \<and>
         usersCommunities s' =
           (if memberOfAnotherChannel (communityId channelToEvaluate) channelId u s'
            then usersCommunities s
            else usersCommunities (removeMemberInCommunity (communityId channelToEvaluate) u s)) \<and>
         isMember_community (usersCommunities s' (communityId channelToEvaluate) u) =
           (isMember_community (usersCommunities s (communityId channelToEvaluate) u) \<and>
            memberOfAnotherChannel (communityId channelToEvaluate) channelId u s')"
proof -
  let ?k = "communityId channelToEvaluate"
  let ?s1 = "setStatus channelId u NoneStatus s"
  have live: "\<not> deletedAt channelToEvaluate"
    using assms(1,2)
    by (auto simp: getUserPermissionsInChannel_def isMember_def noChannelPermissions_def)
  have perms: "getUserPermissionsInChannel channelId u s = usersChannels s channelId u"
    using assms(1) live by (rule live_channel_permissions)
  have run: "toggleChannelSubscription channelId (Some u) s =
      (Inr (Some channelToEvaluate),
       if memberOfAnotherChannel ?k channelId u ?s1 then ?s1 else removeMemberInCommunity ?k u ?s1)"
    using assms(1-3) live
    by (simp add: toggleChannelSubscription_def Let_def perms isBlocked_def isMember_def
        removeMemberInChannel_def member_elsewhere_after_leave)
  have same: "memberOfAnotherChannel ?k channelId u (removeMemberInCommunity ?k u ?s1) =
      memberOfAnotherChannel ?k channelId u ?s1"
    by (simp add: memberOfAnotherChannel_def removeMemberInCommunity_def setCommunityMember_def)
  show ?thesis
  proof (cases "memberOfAnotherChannel ?k channelId u ?s1")
    case True
    with run assms(4) have "r = Inr (Some channelToEvaluate)" and "s' = ?s1" by simp_all
    with True show ?thesis
      by (simp add: setStatus_usersChannels setStatus_other_tables)
  next
    case False
    with run assms(4) have "r = Inr (Some channelToEvaluate)"
      and "s' = removeMemberInCommunity ?k u ?s1" by simp_all
    with False same show ?thesis
      by (simp add: removeMemberInCommunity_def setCommunityMember_def setStatus_def)
  qed
qed

text \<open>
  Mia leaves her only channel and loses the membership of the community; Noor leaves
  the lounge, stays in \<open>general\<close> and keeps it.
\<close>

theorem leave_removes_last_membership_witness:
  "isMember_community (usersCommunities demo ''K'' ''mia'') \<and>
   status (usersChannels (snd (toggleChannelSubscription ''lounge'' (Some ''mia'') demo))
     ''lounge'' ''mia'') = NoneStatus \<and>
   \<not> isMember_community
     (usersCommunities (snd (toggleChannelSubscription ''lounge'' (Some ''mia'') demo)) ''K'' ''mia'') \<and>
   status (usersChannels (snd (toggleChannelSubscription ''lounge'' (Some ''noor'') demo))
     ''lounge'' ''noor'') = NoneStatus \<and>
   isMember_community
     (usersCommunities (snd (toggleChannelSubscription ''lounge'' (Some ''noor'') demo)) ''K'' ''noor'')"
proof -
  let ?ch = "\<lparr>id_channel = ''lounge'', communityId = ''K'', isPrivate = False, deletedAt = False\<rparr>"
  let ?mia = "toggleChannelSubscription ''lounge'' (Some ''mia'') demo"
  let ?noor = "toggleChannelSubscription ''lounge'' (Some ''noor'') demo"
  have c: "getChannels [''lounge''] demo = ?ch # []" by (rule demo_lounge)
  have m1: "isMember (getUserPermissionsInChannel ''lounge'' ''mia'' demo)"
    and o1: "\<not> isOwner (getUserPermissionsInChannel ''lounge'' ''mia'' demo)"
    and m2: "isMember (getUserPermissionsInChannel ''lounge'' ''noor'' demo)"
    and o2: "\<not> isOwner (getUserPermissionsInChannel ''lounge'' ''noor'' demo)"
    by (simp_all add: getUserPermissionsInChannel_def demo_lounge isMember_def demo_tables
        demoChannels_def)
  have k1: "isMember_community (usersCommunities demo ''K'' ''mia'')"
    and k2: "isMember_community (usersCommunities demo ''K'' ''noor'')"
    by (simp_all add: demo_tables demoCommunities_def)
  have e1: "?mia = (fst ?mia, snd ?mia)" and e2: "?noor = (fst ?noor, snd ?noor)" by simp_all
  have last: "\<not> memberOfAnotherChannel ''K'' ''lounge'' ''mia'' (snd ?mia)"
    unfolding demo_mia_leaves
    by (simp add: memberOfAnotherChannel_def removeMemberInCommunity_def setCommunityMember_def
        setStatus_def demo_channel_ids demo_tables demoChannels_def noChannelPermissions_def)
  have more: "memberOfAnotherChannel ''K'' ''lounge'' ''noor'' (snd ?noor)"
    unfolding demo_noor_leaves
    by (simp add: memberOfAnotherChannel_def setStatus_def demo_channel_ids demo_tables
        demoChannels_def)
  from leave_removes_last_membership [OF c m1 o1 e1] leave_removes_last_membership [OF c m2 o2 e2]
    last more k1 k2
  show ?thesis by (simp add: removeMemberInCommunity_def setCommunityMember_def)
qed

text \<open>
  Claim C5. Let the channel exist, be public and not be deleted, let the user have the
  status None in it (so the user is not blocked), and let the user not be a member of
  the parent community. The resolver turns the owner of a channel away before any join,
  and the specification layers ownership on Member status, so the user is not the
  owner. Then \<open>toggleChannelSubscription\<close> succeeds, and in the state it leaves the
  user has the status Member in the channel, is a member of the parent community, and
  has the status Member in every default channel of that community.
\<close>

theorem first_join_enters_community:
  assumes "getChannels [channelId] s = channelToEvaluate # rest"
      and "\<not> deletedAt channelToEvaluate"
      and "\<not> isPrivate channelToEvaluate"
      and "status (usersChannels s channelId u) = NoneStatus"
      and "\<not> isOwner (usersChannels s channelId u)"
      and "\<not> isMember_community (usersCommunities s (communityId channelToEvaluate) u)"
      and "toggleChannelSubscription channelId (Some u) s = (r, s')"
  shows "r = Inr (Some channelToEvaluate) \<and>
         status (usersChannels s' channelId u) = Member \<and>
         isMember_community (usersCommunities s' (communityId channelToEvaluate) u) \<and>
         (\<forall>c \<in> set (defaultChannels s (communityId channelToEvaluate)).
            status (usersChannels s' c u) = Member)"
proof -
  let ?k = "communityId channelToEvaluate"
  let ?s1 = "setStatus channelId u Member s"
  let ?s2 = "createMemberInCommunity ?k u ?s1"
  have perms: "getUserPermissionsInChannel channelId u s = usersChannels s channelId u"
    using assms(1,2) by (rule live_channel_permissions)
  have "\<not> isMember_community (usersCommunities ?s1 ?k u)"
    using assms(6) by (simp add: setStatus_other_tables)
  then have outside: "\<not> isMember_community (getUserPermissionsInCommunity ?k u ?s1)"
    by (rule no_membership_read)
  have run: "toggleChannelSubscription channelId (Some u) s =
      (Inr (Some channelToEvaluate), createMemberInDefaultChannels ?k u ?s2)"
    using assms(1-5) outside
    by (simp add: toggleChannelSubscription_def Let_def perms isBlocked_def isMember_def
        isPending_def createMemberInChannel_def channelRecord_live)
  with assms(7) have r: "r = Inr (Some channelToEvaluate)"
    and s': "s' = createMemberInDefaultChannels ?k u ?s2" by simp_all
  have defaults: "defaultChannels ?s2 ?k = defaultChannels s ?k"
    by (simp add: createMemberInCommunity_def setCommunityMember_def setStatus_def)
  have joined: "status (usersChannels ?s2 channelId u) = Member"
    by (simp add: createMemberInCommunity_def setCommunityMember_def setStatus_def)
  have granted: "isMember_community (usersCommunities ?s2 ?k u)"
    by (simp add: createMemberInCommunity_def setCommunityMember_def)
  show ?thesis
    unfolding r s' createMemberInDefaultChannels_def defaults
    using joined granted
    by (simp add: fold_setStatus_usersChannels fold_setStatus_other_tables)
qed

text \<open>Zed joins the lounge, and with it the community and its default channel.\<close>

theorem first_join_enters_community_witness:
  "status (usersChannels demo ''lounge'' ''zed'') = NoneStatus \<and>
   \<not> isMember_community (usersCommunities demo ''K'' ''zed'') \<and>
   status (usersChannels (snd (toggleChannelSubscription ''lounge'' (Some ''zed'') demo))
     ''lounge'' ''zed'') = Member \<and>
   isMember_community
     (usersCommunities (snd (toggleChannelSubscription ''lounge'' (Some ''zed'') demo)) ''K'' ''zed'') \<and>
   status (usersChannels (snd (toggleChannelSubscription ''lounge'' (Some ''zed'') demo))
     ''general'' ''zed'') = Member"
proof -
  let ?ch = "\<lparr>id_channel = ''lounge'', communityId = ''K'', isPrivate = False, deletedAt = False\<rparr>"
  let ?run = "toggleChannelSubscription ''lounge'' (Some ''zed'') demo"
  have c: "getChannels [''lounge''] demo = ?ch # []" by (rule demo_lounge)
  have d: "\<not> deletedAt ?ch" and pub: "\<not> isPrivate ?ch" by simp_all
  have n: "status (usersChannels demo ''lounge'' ''zed'') = NoneStatus"
    and o: "\<not> isOwner (usersChannels demo ''lounge'' ''zed'')"
    by (simp_all add: demo_tables demoChannels_def noChannelPermissions_def)
  have k: "\<not> isMember_community (usersCommunities demo (communityId ?ch) ''zed'')"
    by (simp add: demo_tables demoCommunities_def noCommunityPermissions_def)
  have e: "?run = (fst ?run, snd ?run)" by simp
  from n k first_join_enters_community [OF c d pub n o k e] show ?thesis
    by (simp add: demo_tables)
qed

subsection \<open>togglePendingUser\<close>

text \<open>
  Claim C7. Let the channel permissions of the target user not show \<open>isPending\<close>.
  Then \<open>togglePendingUser\<close>, for either action, fails with a \<^verbatim>\<open>UserError\<close> and the
  state is as it was: no write is made. When somebody is signed in and the channel
  exists and is not deleted, the error is the one that says that the user is not
  pending; the two guards before it are those of a missing user and a missing channel.
\<close>

theorem toggle_non_pending_rejected:
  assumes "\<not> isPending (getUserPermissionsInChannel channelId userId s)"
  shows "(\<exists>message. togglePendingUser channelId userId action user s = (Inl (UserError message), s)) \<and>
         (\<forall>currentUser channelToEvaluate rest.
            user = Some currentUser \<longrightarrow>
            getChannels [channelId] s = channelToEvaluate # rest \<longrightarrow>
            \<not> deletedAt channelToEvaluate \<longrightarrow>
            togglePendingUser channelId userId action user s =
              (Inl (UserError ''This user is not currently pending access to this channel.''), s))"
  using assms
  by (auto simp: togglePendingUser_def Let_def split: option.splits list.splits)

text \<open>Olivia approves Victor a second time, in the state her first approval left.\<close>

theorem toggle_non_pending_rejected_witness:
  "\<not> isPending (getUserPermissionsInChannel ''private'' ''victor''
       (snd (togglePendingUser ''private'' ''victor'' Approve (Some ''olivia'') demo))) \<and>
   togglePendingUser ''private'' ''victor'' Approve (Some ''olivia'')
     (snd (togglePendingUser ''private'' ''victor'' Approve (Some ''olivia'') demo)) =
     (Inl (UserError ''This user is not currently pending access to this channel.''),
      snd (togglePendingUser ''private'' ''victor'' Approve (Some ''olivia'') demo))"
proof -
  let ?ch = "\<lparr>id_channel = ''private'', communityId = ''K'', isPrivate = True, deletedAt = False\<rparr>"
  let ?s = "snd (togglePendingUser ''private'' ''victor'' Approve (Some ''olivia'') demo)"
  have c: "getChannels [''private''] ?s = ?ch # []" by (rule demo_first_approval_tables)
  have d: "\<not> deletedAt ?ch" by simp
  have p: "\<not> isPending (getUserPermissionsInChannel ''private'' ''victor'' ?s)"
    by (simp add: getUserPermissionsInChannel_def demo_first_approval_tables isPending_def)
  from toggle_non_pending_rejected [OF p, of Approve "Some ''olivia''"] c d
  have "togglePendingUser ''private'' ''victor'' Approve (Some ''olivia'') ?s =
      (Inl (UserError ''This user is not currently pending access to this channel.''), ?s)"
    by blast
  with p show ?thesis by (rule conjI)
qed

text \<open>
  Claim C4. The claim is that one of the two ownerships is enough to block a pending
  user. The guard of the resolver turns the current user away when the ownership of the
  channel is missing or the ownership of the community is missing: whoever does not
  hold both gets the error of a user without permission, and the state is as it was.
\<close>

theorem block_needs_both_ownerships:
  assumes "getChannels [channelId] s = channelToEvaluate # rest"
      and "\<not> deletedAt channelToEvaluate"
      and "status (usersChannels s channelId userId) = Pending"
      and "\<not> (isOwner (usersChannels s channelId currentUser) \<and>
              isOwner_community (getUserPermissionsInCommunity (communityId channelToEvaluate) currentUser s))"
  shows "togglePendingUser channelId userId Block (Some currentUser) s =
           (Inl (UserError ''You don't have permission to make changes to this channel.''), s)"
  using assms
  by (auto simp: togglePendingUser_def Let_def live_channel_permissions isPending_def)

text \<open>
  Chen owns the private channel only and Kim owns the community only; neither can
  block Victor.
\<close>

theorem block_needs_both_ownerships_witness:
  "isOwner (usersChannels demo ''private'' ''chen'') \<and>
   isOwner_community (getUserPermissionsInCommunity ''K'' ''kim'' demo) \<and>
   status (usersChannels demo ''private'' ''victor'') = Pending \<and>
   togglePendingUser ''private'' ''victor'' Block (Some ''chen'') demo =
     (Inl (UserError ''You don't have permission to make changes to this channel.''), demo) \<and>
   togglePendingUser ''private'' ''victor'' Block (Some ''kim'') demo =
     (Inl (UserError ''You don't have permission to make changes to this channel.''), demo)"
proof -
  let ?ch = "\<lparr>id_channel = ''private'', communityId = ''K'', isPrivate = True, deletedAt = False\<rparr>"
  have c: "getChannels [''private''] demo = ?ch # []" by (rule demo_private)
  have d: "\<not> deletedAt ?ch" by simp
  have p: "status (usersChannels demo ''private'' ''victor'') = Pending"
    by (simp add: demo_tables demoChannels_def)
  have chen: "isOwner (usersChannels demo ''private'' ''chen'')"
    by (simp add: demo_tables demoChannels_def)
  have kim: "isOwner_community (getUserPermissionsInCommunity ''K'' ''kim'' demo)"
    by (simp add: getUserPermissionsInCommunity_def demo_community demo_tables demoCommunities_def)
  have one: "\<not> (isOwner (usersChannels demo ''private'' ''chen'') \<and>
      isOwner_community (getUserPermissionsInCommunity (communityId ?ch) ''chen'' demo))"
    by (simp add: getUserPermissionsInCommunity_def demo_community demo_tables demoCommunities_def)
  have other: "\<not> (isOwner (usersChannels demo ''private'' ''kim'') \<and>
      isOwner_community (getUserPermissionsInCommunity (communityId ?ch) ''kim'' demo))"
    by (simp add: demo_tables demoChannels_def noChannelPermissions_def)
  from chen kim p block_needs_both_ownerships [OF c d p one]
    block_needs_both_ownerships [OF c d p other]
  show ?thesis by simp
qed

text \<open>
  Claim C1. The claim is that an approved user who lacks the membership of the parent
  community is granted it, with Member status in the default channels. The resolver
  decides this on the community permissions of the current user, not on those of the
  approved user. When the current user, who owns the channel and the community, is a
  member of the community, the approval succeeds and the target has the status Member
  in the channel, but the community relationships are those of before and so are the
  relationships of every other channel.
\<close>

theorem approve_reads_actor_membership:
  assumes "getChannels [channelId] s = channelToEvaluate # rest"
      and "\<not> deletedAt channelToEvaluate"
      and "status (usersChannels s channelId userId) = Pending"
      and "isOwner (usersChannels s channelId currentUser)"
      and "isOwner_community (getUserPermissionsInCommunity (communityId channelToEvaluate) currentUser s)"
      and "isMember_community (getUserPermissionsInCommunity (communityId channelToEvaluate) currentUser s)"
      and "togglePendingUser channelId userId Approve (Some currentUser) s = (r, s')"
  shows "r = Inr (Some channelToEvaluate) \<and>
         status (usersChannels s' channelId userId) = Member \<and>
         usersCommunities s' = usersCommunities s \<and>
         (\<forall>c. c \<noteq> channelId \<longrightarrow> usersChannels s' c = usersChannels s c)"
  using assms
  by (auto simp: togglePendingUser_def Let_def live_channel_permissions isPending_def
      approvePendingUserInChannel_def addQueue_def setStatus_def)

text \<open>
  Olivia approves Victor, who is not a member of the community: he becomes a member of
  the private channel, and neither of the community nor of its default channel.
\<close>

theorem approve_reads_actor_membership_witness:
  "status (usersChannels demo ''private'' ''victor'') = Pending \<and>
   \<not> isMember_community (usersCommunities demo ''K'' ''victor'') \<and>
   status (usersChannels (snd (togglePendingUser ''private'' ''victor'' Approve (Some ''olivia'') demo))
     ''private'' ''victor'') = Member \<and>
   \<not> isMember_community
     (usersCommunities (snd (togglePendingUser ''private'' ''victor'' Approve (Some ''olivia'') demo))
        ''K'' ''victor'') \<and>
   status (usersChannels (snd (togglePendingUser ''private'' ''victor'' Approve (Some ''olivia'') demo))
     ''general'' ''victor'') = NoneStatus"
proof -
  let ?ch = "\<lparr>id_channel = ''private'', communityId = ''K'', isPrivate = True, deletedAt = False\<rparr>"
  let ?run = "togglePendingUser ''private'' ''victor'' Approve (Some ''olivia'') demo"
  have c: "getChannels [''private''] demo = ?ch # []" by (rule demo_private)
  have d: "\<not> deletedAt ?ch" by simp
  have p: "status (usersChannels demo ''private'' ''victor'') = Pending"
    by (simp add: demo_tables demoChannels_def)
  have o: "isOwner (usersChannels demo ''private'' ''olivia'')"
    by (simp add: demo_tables demoChannels_def)
  have k: "isOwner_community (getUserPermissionsInCommunity (communityId ?ch) ''olivia'' demo)"
    by (simp add: getUserPermissionsInCommunity_def demo_community demo_tables demoCommunities_def)
  have m: "isMember_community (getUserPermissionsInCommunity (communityId ?ch) ''olivia'' demo)"
    by (simp add: getUserPermissionsInCommunity_def demo_community demo_tables demoCommunities_def)
  have e: "?run = (fst ?run, snd ?run)" by simp
  note approve_reads_actor_membership [OF c d p o k m e]
  then have "status (usersChannels (snd ?run) ''private'' ''victor'') = Member"
    and "usersCommunities (snd ?run) = demoCommunities"
    and "usersChannels (snd ?run) ''general'' = demoChannels ''general''"
    by (simp_all add: demo_tables)
  with p show ?thesis
    by (simp add: demo_tables demoChannels_def demoCommunities_def noChannelPermissions_def
        noCommunityPermissions_def)
qed

subsection \<open>unblockUser\<close>

text \<open>
  Claim C3. The claim is that the owner of the parent community can unblock a user.
  The resolver reads \<^verbatim>\<open>isOwner\<close> from a promise that it has not awaited, which is
  never true: a current user who does not own the channel gets the error of a user
  without permission, whatever the community permissions are, and the state is as it
  was.
\<close>

theorem unblock_ignores_community_owner:
  assumes "getChannels [channelId] s = channelToEvaluate # rest"
      and "\<not> deletedAt channelToEvaluate"
      and "status (usersChannels s channelId userId) = Blocked"
      and "\<not> isOwner (usersChannels s channelId currentUser)"
  shows "unblockUser channelId userId (Some currentUser) s =
           (Inl (UserError ''You don't have permission to make changes to this channel.''), s)"
  using assms
  by (simp add: unblockUser_def Let_def live_channel_permissions isBlocked_def)

text \<open>Kim owns the community and not the private channel; she cannot unblock Bao.\<close>

theorem unblock_ignores_community_owner_witness:
  "isOwner_community (getUserPermissionsInCommunity ''K'' ''kim'' demo) \<and>
   status (usersChannels demo ''private'' ''bao'') = Blocked \<and>
   unblockUser ''private'' ''bao'' (Some ''kim'') demo =
     (Inl (UserError ''You don't have permission to make changes to this channel.''), demo)"
proof -
  let ?ch = "\<lparr>id_channel = ''private'', communityId = ''K'', isPrivate = True, deletedAt = False\<rparr>"
  have c: "getChannels [''private''] demo = ?ch # []" by (rule demo_private)
  have d: "\<not> deletedAt ?ch" by simp
  have b: "status (usersChannels demo ''private'' ''bao'') = Blocked"
    by (simp add: demo_tables demoChannels_def)
  have n: "\<not> isOwner (usersChannels demo ''private'' ''kim'')"
    by (simp add: demo_tables demoChannels_def noChannelPermissions_def)
  have k: "isOwner_community (getUserPermissionsInCommunity ''K'' ''kim'' demo)"
    by (simp add: getUserPermissionsInCommunity_def demo_community demo_tables demoCommunities_def)
  from k b unblock_ignores_community_owner [OF c d b n] show ?thesis by simp
qed

subsection \<open>The order of the checks\<close>

text \<open>
  Claim C10. On a channel that exists and is not deleted, and for every signed-in
  user, \<open>togglePendingUser\<close> resolves to the error that the target is not pending
  whenever the target is not pending, and \<open>unblockUser\<close> to the error that the target
  is not blocked whenever the target is not blocked: the state of the target is tested
  before the ownership of the current user. A current user who owns neither the channel
  nor the community gets the error of a user without permission when the target is
  pending, respectively blocked, so the two errors tell such a user the state of the
  target.
\<close>

theorem state_check_before_authorization:
  assumes "getChannels [channelId] s = channelToEvaluate # rest"
      and "\<not> deletedAt channelToEvaluate"
  shows "(status (usersChannels s channelId userId) \<noteq> Pending \<longrightarrow>
            fst (togglePendingUser channelId userId action (Some currentUser) s) =
              Inl (UserError ''This user is not currently pending access to this channel.'')) \<and>
         (status (usersChannels s channelId userId) \<noteq> Blocked \<longrightarrow>
            fst (unblockUser channelId userId (Some currentUser) s) =
              Inl (UserError ''This user is not currently blocked in this channel.'')) \<and>
         (\<not> isOwner (getUserPermissionsInChannel channelId currentUser s) \<and>
          \<not> isOwner_community (getUserPermissionsInCommunity (communityId channelToEvaluate) currentUser s) \<longrightarrow>
            (status (usersChannels s channelId userId) = Pending \<longrightarrow>
               fst (togglePendingUser channelId userId action (Some currentUser) s) =
                 Inl (UserError ''You don't have permission to make changes to this channel.'')) \<and>
            (status (usersChannels s channelId userId) = Blocked \<longrightarrow>
               fst (unblockUser channelId userId (Some currentUser) s) =
                 Inl (UserError ''You don't have permission to make changes to this channel.'')))"
  using assms
  by (simp add: togglePendingUser_def unblockUser_def Let_def live_channel_permissions
      isPending_def isBlocked_def)

text \<open>
  Zed owns nothing. Asking about Mia, who has no status in the private channel, he is
  told that she is neither pending nor blocked; asking about Victor and Bao, he is told
  that he has no permission.
\<close>

theorem state_check_before_authorization_witness:
  "\<not> isOwner (getUserPermissionsInChannel ''private'' ''zed'' demo) \<and>
   \<not> isOwner_community (getUserPermissionsInCommunity ''K'' ''zed'' demo) \<and>
   fst (togglePendingUser ''private'' ''mia'' Approve (Some ''zed'') demo) =
     Inl (UserError ''This user is not currently pending access to this channel.'') \<and>
   fst (unblockUser ''private'' ''mia'' (Some ''zed'') demo) =
     Inl (UserError ''This user is not currently blocked in this channel.'') \<and>
   fst (togglePendingUser ''private'' ''victor'' Approve (Some ''zed'') demo) =
     Inl (UserError ''You don't have permission to make changes to this channel.'') \<and>
   fst (unblockUser ''private'' ''bao'' (Some ''zed'') demo) =
     Inl (UserError ''You don't have permission to make changes to this channel.'')"
proof -
  let ?ch = "\<lparr>id_channel = ''private'', communityId = ''K'', isPrivate = True, deletedAt = False\<rparr>"
  have c: "getChannels [''private''] demo = ?ch # []" by (rule demo_private)
  have d: "\<not> deletedAt ?ch" by simp
  have z1: "\<not> isOwner (getUserPermissionsInChannel ''private'' ''zed'' demo)"
    by (simp add: getUserPermissionsInChannel_def demo_private demo_tables demoChannels_def
        noChannelPermissions_def)
  have z2: "\<not> isOwner_community (getUserPermissionsInCommunity ''K'' ''zed'' demo)"
    by (simp add: getUserPermissionsInCommunity_def demo_community demo_tables demoCommunities_def
        noCommunityPermissions_def)
  have mia: "status (usersChannels demo ''private'' ''mia'') = NoneStatus"
    and victor: "status (usersChannels demo ''private'' ''victor'') = Pending"
    and bao: "status (usersChannels demo ''private'' ''bao'') = Blocked"
    by (simp_all add: demo_tables demoChannels_def noChannelPermissions_def)
  from z1 z2 mia victor bao
    state_check_before_authorization [OF c d, of "''mia''" Approve "''zed''"]
    state_check_before_authorization [OF c d, of "''victor''" Approve "''zed''"]
    state_check_before_authorization [OF c d, of "''bao''" Approve "''zed''"]
  show ?thesis by simp
qed

end
